theory Spec2Isabelle
  imports Complex_Main "HOL-Library.Log_Nat"
begin

section \<open>JavaScript values, strings and numbers\<close>

text \<open>
  The handlers of the OTP server (\<^verbatim>\<open>src/unnamed/part_003\<close>) read the fields \<^verbatim>\<open>email\<close> and
  \<^verbatim>\<open>otp\<close> of a parsed JSON body. A field of a JSON body is a string, a number, a boolean,
  \<^verbatim>\<open>null\<close>, an array or object, or is missing (\<^verbatim>\<open>undefined\<close>). Arrays and objects are
  one constructor: the handlers only call \<^verbatim>\<open>toLowerCase\<close> on the value (a \<^verbatim>\<open>TypeError\<close> for
  everything but a string) and compare it with a string by \<^verbatim>\<open>!==\<close> (always different for
  everything but a string).
\<close>

datatype jsval = JUndefined | JNull | JBool bool | JNumber rat | JString string | JObject

text \<open>
  \<^verbatim>\<open>String.prototype.toLowerCase\<close> on the characters a HOL \<^typ>\<open>char\<close> holds (code points
  0 to 255): the letters A to Z and the Latin-1 capitals U+00C0 to U+00DE, the
  multiplication sign U+00D7 apart, move up by 32; every other character stays.
\<close>

definition toLowerCase_char :: "char \<Rightarrow> char" where
  "toLowerCase_char c =
     (let n = (of_char c :: nat)
      in if (65 \<le> n \<and> n \<le> 90) \<or> (192 \<le> n \<and> n \<le> 222 \<and> n \<noteq> 215)
         then char_of (n + 32) else c)"

definition toLowerCase :: "string \<Rightarrow> string" where
  "toLowerCase s = map toLowerCase_char s"

text \<open>
  JavaScript numbers are IEEE 754 binary64 values. A finite double is modelled by the
  rational it denotes, and every arithmetic operation of the source rounds its exact
  result to the nearest double, ties to the even significand. \<open>binade x\<close> is the
  exponent \<open>e\<close> with \<open>2 ^ e \<le> x < 2 ^ (e + 1)\<close>; a double of that binade is a multiple of
  \<open>2 ^ (e - 52)\<close>. Overflow and subnormal numbers are left out: no operation of the OTP
  generation comes near either range.
\<close>

definition round_half_even :: "rat \<Rightarrow> int" where
  "round_half_even q =
     (let f = \<lfloor>q\<rfloor>; r = q - of_int f
      in if r < 1 / 2 then f
         else if 1 / 2 < r then f + 1
         else if even f then f else f + 1)"

definition binade :: "rat \<Rightarrow> int" where
  "binade x =
     (let p = fst (quotient_of x); q = snd (quotient_of x);
          d = bitlen p - bitlen q
      in if 2 powi d \<le> x then d else d - 1)"

definition round_double :: "rat \<Rightarrow> rat" where
  "round_double x =
     (if x = 0 then 0
      else let u = 2 powi (binade \<bar>x\<bar> - 52)
           in of_int (round_half_even (x / u)) * u)"

definition is_double :: "rat \<Rightarrow> bool" where
  "is_double x \<longleftrightarrow> round_double x = x"

text \<open>\<^verbatim>\<open>Number.prototype.toString\<close> on an integer: its decimal digits.\<close>

definition digit_char :: "nat \<Rightarrow> char" where
  "digit_char d = ''0123456789'' ! d"

fun digits_of_nat :: "nat \<Rightarrow> string" where
  "digits_of_nat n =
     (if n < 10 then [digit_char n] else digits_of_nat (n div 10) @ [digit_char (n mod 10)])"

declare digits_of_nat.simps [simp del]

definition Number_toString :: "int \<Rightarrow> string" where
  "Number_toString i =
     (if i < 0 then CHR ''-'' # digits_of_nat (nat (- i)) else digits_of_nat (nat i))"

section \<open>The OTP server\<close>

text \<open>
  \<^verbatim>\<open>const otpStore = new Map()\<close>: one entry per key, the key being the email string
  exactly as a request spelled it. \<^verbatim>\<open>ADMIN_EMAIL\<close> is
  \<^verbatim>\<open>process.env.SMTP_EMAIL || 'zafskitchen95@gmail.com'\<close>.
\<close>

record otp_entry =
  otp :: string
  expires :: int

type_synonym otp_store = "string \<rightharpoonup> otp_entry"

definition ADMIN_EMAIL :: "string option \<Rightarrow> string" where
  "ADMIN_EMAIL smtp_email =
     (case smtp_email of
        None \<Rightarrow> ''zafskitchen95@gmail.com''
      | Some s \<Rightarrow> if s = [] then ''zafskitchen95@gmail.com'' else s)"

record otp_response =
  success :: bool
  message :: string
  token :: "string option"

definition refused :: "string \<Rightarrow> otp_response" where
  "refused msg = \<lparr>success = False, message = msg, token = None\<rparr>"

text \<open>What \<^verbatim>\<open>await axios.post(...)\<close> to the mail provider does: it answers with a status,
  or it throws.\<close>

datatype http_outcome = Responded nat | Threw

text \<open>
  \<^verbatim>\<open>Math.floor(100000 + Math.random() * 900000).toString()\<close>, the argument being the
  value \<^verbatim>\<open>Math.random()\<close> returned.
\<close>

definition generate_otp_number :: "rat \<Rightarrow> int" where
  "generate_otp_number random = \<lfloor>round_double (100000 + round_double (random * 900000))\<rfloor>"

definition generate_otp :: "rat \<Rightarrow> string" where
  "generate_otp random = Number_toString (generate_otp_number random)"

text \<open>
  \<^verbatim>\<open>POST /api/send-otp\<close>. The arguments after the configured admin email are the
  request's \<^verbatim>\<open>email\<close>, the values of \<^verbatim>\<open>Math.random()\<close> and \<^verbatim>\<open>Date.now()\<close>, and the mail
  provider's answer. A \<^verbatim>\<open>TypeError\<close> of \<^verbatim>\<open>email.toLowerCase()\<close> and every failure of the
  mail request end in the \<^verbatim>\<open>catch\<close> block; the store has been written by then in the
  second case.
\<close>

definition send_otp ::
  "string \<Rightarrow> jsval \<Rightarrow> rat \<Rightarrow> int \<Rightarrow> http_outcome \<Rightarrow> otp_store \<Rightarrow> otp_store \<times> otp_response" where
  "send_otp admin email random now brevo store =
     (case email of
        JString e \<Rightarrow>
          if toLowerCase e \<noteq> toLowerCase admin
          then (store, refused ''Unauthorized email. Only admin can access this system.'')
          else
            let code = generate_otp random;
                store' = store(e \<mapsto> \<lparr>otp = code, expires = now + 5 * 60 * 1000\<rparr>)
            in if brevo = Responded 201
               then (store', \<lparr>success = True,
                              message = ''OTP sent successfully to your email'',
                              token = None\<rparr>)
               else (store', refused ''Failed to send OTP. Please try again.'')
      | _ \<Rightarrow> (store, refused ''Failed to send OTP. Please try again.''))"

text \<open>
  \<^verbatim>\<open>POST /api/verify-otp\<close>. The arguments after the admin email are the request's
  \<^verbatim>\<open>email\<close> and \<^verbatim>\<open>otp\<close>, the value of \<^verbatim>\<open>Date.now()\<close> and the hexadecimal string
  \<^verbatim>\<open>crypto.randomBytes(32).toString('hex')\<close> would give.
\<close>

definition verify_otp ::
  "string \<Rightarrow> jsval \<Rightarrow> jsval \<Rightarrow> int \<Rightarrow> string \<Rightarrow> otp_store \<Rightarrow> otp_store \<times> otp_response" where
  "verify_otp admin email code now sessionToken store =
     (case email of
        JString e \<Rightarrow>
          if toLowerCase e \<noteq> toLowerCase admin
          then (store, refused ''Unauthorized access'')
          else
            (case store e of
               None \<Rightarrow>
                 (store, refused ''OTP expired or not found. Please request a new one.'')
             | Some stored \<Rightarrow>
                 if now > expires stored
                 then (store(e := None), refused ''OTP has expired. Please request a new one.'')
                 else if JString (otp stored) \<noteq> code
                 then (store, refused ''Invalid OTP. Please check and try again.'')
                 else (store(e := None),
                       \<lparr>success = True, message = ''Login successful'',
                        token = Some sessionToken\<rparr>))
      | _ \<Rightarrow> (store, refused ''Verification failed. Please try again.''))"

text \<open>The decimal digits, by their character codes.\<close>

definition is_digit :: "char \<Rightarrow> bool" where
  "is_digit c \<longleftrightarrow> 48 \<le> (of_char c :: nat) \<and> (of_char c :: nat) \<le> 57"

text \<open>
  A run of \<^verbatim>\<open>verify-otp\<close> requests, each with its email, code, clock value and session
  token, served one after the other: what happens to the store between two requests when
  no \<^verbatim>\<open>send-otp\<close> comes in.
\<close>

fun verify_all :: "string \<Rightarrow> (jsval \<times> jsval \<times> int \<times> string) list \<Rightarrow> otp_store \<Rightarrow> otp_store" where
  "verify_all admin [] store = store"
| "verify_all admin ((email, code, now, sessionToken) # reqs) store =
     verify_all admin reqs (fst (verify_otp admin email code now sessionToken store))"

section \<open>The database\<close>

text \<open>
  The handlers of the Electron main process (\<^verbatim>\<open>src/unnamed/part_002\<close>) send SQL statements
  to a PostgreSQL database with the tables \<^verbatim>\<open>bookings\<close>, \<^verbatim>\<open>staff\<close> and \<^verbatim>\<open>usertable\<close>. The
  columns of each table and their types are those the preload script declares under
  \<^verbatim>\<open>database.schema\<close> (\<^verbatim>\<open>src/main-fixed.js\<close>). A row is a record with one field per column.
  The key \<^verbatim>\<open>id\<close> is never \<^verbatim>\<open>NULL\<close>; every other column may hold \<^verbatim>\<open>NULL\<close>, which is
  \<open>None\<close>. A \<^verbatim>\<open>UUID\<close> value is its sixteen bytes. \<^verbatim>\<open>TEXT\<close>, \<^verbatim>\<open>DATE\<close>, \<^verbatim>\<open>TIME\<close> and \<^verbatim>\<open>JSONB\<close>
  values are strings, \<^verbatim>\<open>INTEGER\<close> values are integers, \<^verbatim>\<open>DECIMAL\<close> values are rationals,
  and a \<^verbatim>\<open>TIMESTAMP\<close> is a number of milliseconds since the epoch, the scale of
  \<^verbatim>\<open>Date.now()\<close>; the driver's conversion between a JavaScript \<^verbatim>\<open>Date\<close> and a \<^verbatim>\<open>TIMESTAMP\<close>
  is taken to be exact.
\<close>

datatype uuid = UUID "nat list"

record booking =
  booking_id :: uuid
  user_id :: "uuid option"
  full_name :: "string option"
  contact_number :: "string option"
  event_type :: "string option"
  event_date :: "string option"
  start_time :: "string option"
  end_time :: "string option"
  guest_count :: "int option"
  food_package :: "string option"
  selected_menus :: "string option"
  event_theme :: "string option"
  custom_theme :: "string option"
  theme_suggestions :: "string option"
  celebrant_name :: "string option"
  celebrant_age :: "int option"
  location :: "string option"
  package_price :: "rat option"
  service_charge :: "rat option"
  charge_description :: "string option"
  total_price :: "rat option"
  booking_status :: "string option"
  payment_status :: "string option"
  cancellation_reason :: "string option"
  approval_date :: "int option"
  event_rating :: "int option"
  event_feedback :: "string option"
  completion_date :: "int option"
  payment_deadline :: "int option"
  created_at :: "int option"
  updated_at :: "int option"

record staff_row =
  staff_id :: uuid
  staff_email :: "string option"
  staff_full_name :: "string option"
  staff_role :: "string option"
  staff_status :: "string option"
  staff_rejection_reason :: "string option"
  staff_created_at :: "int option"
  staff_updated_at :: "int option"

record user_row =
  usr_id :: uuid
  usr_name :: "string option"
  usr_email :: "string option"
  usr_avatar_url :: "string option"
  usr_status :: "string option"
  usr_created_at :: "int option"
  usr_updated_at :: "int option"

record database =
  bookings :: "booking list"
  staff :: "staff_row list"
  usertable :: "user_row list"

text \<open>
  What a handler returns: \<^verbatim>\<open>{ success: true, ... }\<close> with its payload, or
  \<^verbatim>\<open>{ success: false, error: ... }\<close> with the message.
\<close>

datatype 'a reply = Success 'a | Failure string

subsection \<open>The SQL the handlers use\<close>

text \<open>
  A handler passes the id it was given as a text parameter, \<^verbatim>\<open>WHERE id = $n\<close>, and the
  server converts the text to a \<^verbatim>\<open>uuid\<close> before it compares. The conversion is that of
  PostgreSQL: an optional opening brace, sixteen bytes of two hexadecimal digits each, in
  either case, an optional hyphen after every second byte but the last, the closing brace
  if there was an opening one, and nothing more. A text that is not of this form makes
  the server reject the statement with
  \<^verbatim>\<open>invalid input syntax for type uuid: "..."\<close>, and the handler's \<^verbatim>\<open>catch\<close> block answers
  with that message.
\<close>

definition is_xdigit :: "char \<Rightarrow> bool" where
  "is_xdigit c =
     (let n = (of_char c :: nat)
      in (48 \<le> n \<and> n \<le> 57) \<or> (65 \<le> n \<and> n \<le> 70) \<or> (97 \<le> n \<and> n \<le> 102))"

definition xdigit_value :: "char \<Rightarrow> nat" where
  "xdigit_value c =
     (let n = (of_char c :: nat)
      in if n \<le> 57 then n - 48 else if n \<le> 70 then n - 55 else n - 87)"

definition skip_hyphen :: "nat \<Rightarrow> string \<Rightarrow> string" where
  "skip_hyphen i src =
     (case src of
        [] \<Rightarrow> src
      | c # rest \<Rightarrow> if c = CHR ''-'' \<and> i mod 2 = 1 \<and> i < 15 then rest else src)"

text \<open>\<open>uuid_bytes n src\<close> reads the last \<open>n\<close> of the sixteen bytes and returns what is left.\<close>

fun uuid_bytes :: "nat \<Rightarrow> string \<Rightarrow> (nat list \<times> string) option" where
  "uuid_bytes 0 src = Some ([], src)"
| "uuid_bytes (Suc n) (a # b # rest) =
     (if is_xdigit a \<and> is_xdigit b
      then (case uuid_bytes n (skip_hyphen (15 - n) rest) of
              None \<Rightarrow> None
            | Some (bytes, src) \<Rightarrow> Some ((16 * xdigit_value a + xdigit_value b) # bytes, src))
      else None)"
| "uuid_bytes (Suc n) src = None"

definition string_to_uuid :: "string \<Rightarrow> uuid option" where
  "string_to_uuid source =
     (case source of
        [] \<Rightarrow> None
      | c # rest \<Rightarrow>
          if c = CHR ''{''
          then (case uuid_bytes 16 rest of
                  None \<Rightarrow> None
                | Some (bytes, src) \<Rightarrow> if src = ''}'' then Some (UUID bytes) else None)
          else (case uuid_bytes 16 source of
                  None \<Rightarrow> None
                | Some (bytes, src) \<Rightarrow> if src = [] then Some (UUID bytes) else None))"

definition invalid_uuid_syntax :: "string \<Rightarrow> string" where
  "invalid_uuid_syntax source =
     ''invalid input syntax for type uuid: '' @ [CHR 0x22] @ source @ [CHR 0x22]"

definition uuid_in :: "string \<Rightarrow> string + uuid" where
  "uuid_in source =
     (case string_to_uuid source of
        None \<Rightarrow> Inl (invalid_uuid_syntax source)
      | Some u \<Rightarrow> Inr u)"

text \<open>
  A condition of a \<^verbatim>\<open>WHERE\<close> clause is true, false or unknown (\<open>None\<close>): a comparison
  with \<^verbatim>\<open>NULL\<close> is unknown, and a row is selected only where the condition is true.
\<close>

definition sql_eq :: "'a option \<Rightarrow> 'a option \<Rightarrow> bool option" where
  "sql_eq a b = (case a of None \<Rightarrow> None
                 | Some x \<Rightarrow> (case b of None \<Rightarrow> None | Some y \<Rightarrow> Some (x = y)))"

definition sql_neq :: "'a option \<Rightarrow> 'a option \<Rightarrow> bool option" where
  "sql_neq a b = (case a of None \<Rightarrow> None
                  | Some x \<Rightarrow> (case b of None \<Rightarrow> None | Some y \<Rightarrow> Some (x \<noteq> y)))"

definition sql_lt :: "int option \<Rightarrow> int option \<Rightarrow> bool option" where
  "sql_lt a b = (case a of None \<Rightarrow> None
                 | Some x \<Rightarrow> (case b of None \<Rightarrow> None | Some y \<Rightarrow> Some (x < y)))"

definition sql_is_not_null :: "'a option \<Rightarrow> bool option" where
  "sql_is_not_null a = Some (a \<noteq> None)"

definition sql_and :: "bool option \<Rightarrow> bool option \<Rightarrow> bool option" where
  "sql_and a b =
     (if a = Some False \<or> b = Some False then Some False
      else if a = Some True \<and> b = Some True then Some True
      else None)"

definition sql_true :: "bool option \<Rightarrow> bool" where
  "sql_true c \<longleftrightarrow> c = Some True"

text \<open>
  \<^verbatim>\<open>UPDATE t SET ... WHERE ... RETURNING *\<close>: the table after the statement, rows in their
  places, and the updated rows, which the driver hands back as \<^verbatim>\<open>result.rows\<close>.
\<close>

definition sql_update :: "('r \<Rightarrow> bool) \<Rightarrow> ('r \<Rightarrow> 'r) \<Rightarrow> 'r list \<Rightarrow> 'r list \<times> 'r list" where
  "sql_update wh st rows = (map (\<lambda>r. if wh r then st r else r) rows, map st (filter wh rows))"


text \<open>
  A \<^verbatim>\<open>RETURNING\<close> list names columns. The server resolves each name against the columns
  of the table and rejects the whole statement, changing nothing, when a name is not one
  of them: \<^verbatim>\<open>column "c" does not exist\<close>. A value handed back is one of these.
\<close>

datatype sqlval = SqlNull | SqlUuid uuid | SqlText string | SqlInt int | SqlNum rat | SqlTime int

definition uuid_col :: "uuid option \<Rightarrow> sqlval" where
  "uuid_col v = (case v of None \<Rightarrow> SqlNull | Some u \<Rightarrow> SqlUuid u)"

definition text_col :: "string option \<Rightarrow> sqlval" where
  "text_col v = (case v of None \<Rightarrow> SqlNull | Some s \<Rightarrow> SqlText s)"

definition int_col :: "int option \<Rightarrow> sqlval" where
  "int_col v = (case v of None \<Rightarrow> SqlNull | Some i \<Rightarrow> SqlInt i)"

definition num_col :: "rat option \<Rightarrow> sqlval" where
  "num_col v = (case v of None \<Rightarrow> SqlNull | Some q \<Rightarrow> SqlNum q)"

definition time_col :: "int option \<Rightarrow> sqlval" where
  "time_col v = (case v of None \<Rightarrow> SqlNull | Some t \<Rightarrow> SqlTime t)"

text \<open>The columns of \<^verbatim>\<open>bookings\<close>, in the order of \<^verbatim>\<open>database.schema.bookings\<close>.\<close>

definition bookings_columns :: "(string \<times> (booking \<Rightarrow> sqlval)) list" where
  "bookings_columns =
     [(''id'', \<lambda>b. SqlUuid (booking_id b)),
      (''user_id'', \<lambda>b. uuid_col (user_id b)),
      (''full_name'', \<lambda>b. text_col (full_name b)),
      (''contact_number'', \<lambda>b. text_col (contact_number b)),
      (''event_type'', \<lambda>b. text_col (event_type b)),
      (''event_date'', \<lambda>b. text_col (event_date b)),
      (''start_time'', \<lambda>b. text_col (start_time b)),
      (''end_time'', \<lambda>b. text_col (end_time b)),
      (''guest_count'', \<lambda>b. int_col (guest_count b)),
      (''food_package'', \<lambda>b. text_col (food_package b)),
      (''selected_menus'', \<lambda>b. text_col (selected_menus b)),
      (''event_theme'', \<lambda>b. text_col (event_theme b)),
      (''custom_theme'', \<lambda>b. text_col (custom_theme b)),
      (''theme_suggestions'', \<lambda>b. text_col (theme_suggestions b)),
      (''celebrant_name'', \<lambda>b. text_col (celebrant_name b)),
      (''celebrant_age'', \<lambda>b. int_col (celebrant_age b)),
      (''location'', \<lambda>b. text_col (location b)),
      (''package_price'', \<lambda>b. num_col (package_price b)),
      (''service_charge'', \<lambda>b. num_col (service_charge b)),
      (''charge_description'', \<lambda>b. text_col (charge_description b)),
      (''total_price'', \<lambda>b. num_col (total_price b)),
      (''booking_status'', \<lambda>b. text_col (booking_status b)),
      (''payment_status'', \<lambda>b. text_col (payment_status b)),
      (''cancellation_reason'', \<lambda>b. text_col (cancellation_reason b)),
      (''approval_date'', \<lambda>b. time_col (approval_date b)),
      (''event_rating'', \<lambda>b. int_col (event_rating b)),
      (''event_feedback'', \<lambda>b. text_col (event_feedback b)),
      (''completion_date'', \<lambda>b. time_col (completion_date b)),
      (''payment_deadline'', \<lambda>b. time_col (payment_deadline b)),
      (''created_at'', \<lambda>b. time_col (created_at b)),
      (''updated_at'', \<lambda>b. time_col (updated_at b))]"

definition undefined_column :: "string \<Rightarrow> string" where
  "undefined_column c = ''column '' @ [CHR 0x22] @ c @ [CHR 0x22] @ '' does not exist''"

fun resolve_columns ::
  "(string \<times> ('r \<Rightarrow> sqlval)) list \<Rightarrow> string list \<Rightarrow> string + (string \<times> ('r \<Rightarrow> sqlval)) list" where
  "resolve_columns columns [] = Inr []"
| "resolve_columns columns (c # cs) =
     (case map_of columns c of
        None \<Rightarrow> Inl (undefined_column c)
      | Some get \<Rightarrow>
          (case resolve_columns columns cs of
             Inl err \<Rightarrow> Inl err
           | Inr gets \<Rightarrow> Inr ((c, get) # gets)))"

definition project :: "(string \<times> ('r \<Rightarrow> sqlval)) list \<Rightarrow> 'r \<Rightarrow> (string \<times> sqlval) list" where
  "project gets r = map (\<lambda>(c, get). (c, get r)) gets"

subsection \<open>The booking handlers\<close>

text \<open>
  Each handler takes its IPC arguments, the value of \<^verbatim>\<open>NOW()\<close> in the statement it sends,
  and the database; it returns the database after the statement and its reply. The id
  argument is the text the caller passed. The \<^verbatim>\<open>catch\<close> block of a handler is reached
  when the server rejects the statement, which then has changed nothing; it answers with
  the server's message. Emails are sent after the statement and change nothing in the
  database, so they are left out. JavaScript truthiness of an optional string: present and
  not empty.
\<close>

definition truthy :: "string option \<Rightarrow> bool" where
  "truthy v = (case v of None \<Rightarrow> False | Some s \<Rightarrow> s \<noteq> [])"

definition first_row :: "string \<Rightarrow> 'r list \<Rightarrow> 'r reply" where
  "first_row not_found rows = (if 0 < length rows then Success (rows ! 0) else Failure not_found)"

definition update_booking_status ::
  "string \<Rightarrow> string \<Rightarrow> string option \<Rightarrow> int \<Rightarrow> database \<Rightarrow> database \<times> booking reply" where
  "update_booking_status bookingId status cancellationReason now db =
     (let st =
            (if status = ''rejected'' \<and> truthy cancellationReason
             then (\<lambda>b. b\<lparr>booking_status := Some status,
                          cancellation_reason := cancellationReason,
                          updated_at := Some now\<rparr>)
             else if status = ''approved''
             then (\<lambda>b. b\<lparr>booking_status := Some status,
                          cancellation_reason := None,
                          approval_date := Some now,
                          updated_at := Some now\<rparr>)
             else (\<lambda>b. b\<lparr>booking_status := Some status,
                          cancellation_reason := None,
                          updated_at := Some now\<rparr>))
      in case uuid_in bookingId of
           Inl err \<Rightarrow> (db, Failure err)
         | Inr key \<Rightarrow>
             let result = sql_update (\<lambda>b. booking_id b = key) st (bookings db)
             in (db\<lparr>bookings := fst result\<rparr>, first_row ''Booking not found'' (snd result)))"




text \<open>
  \<^verbatim>\<open>set-payment-deadline\<close> computes the deadline from \<^verbatim>\<open>Date.now()\<close>, the clock of the
  application, and lets the server stamp \<^verbatim>\<open>updated_at\<close> with its own \<^verbatim>\<open>NOW()\<close>.
\<close>

definition set_payment_deadline ::
  "string \<Rightarrow> int \<Rightarrow> int \<Rightarrow> database \<Rightarrow> database \<times> booking reply" where
  "set_payment_deadline bookingId date_now now db =
     (let paymentDeadline = date_now + 20 * 60 * 60 * 1000
      in case uuid_in bookingId of
           Inl err \<Rightarrow> (db, Failure err)
         | Inr key \<Rightarrow>
             let result = sql_update (\<lambda>b. booking_id b = key)
                            (\<lambda>b. b\<lparr>payment_deadline := Some paymentDeadline,
                                    updated_at := Some now\<rparr>)
                            (bookings db)
             in (db\<lparr>bookings := fst result\<rparr>, first_row ''Booking not found'' (snd result)))"

text \<open>
  The statement of \<^verbatim>\<open>check-expired-bookings\<close>, sent to a \<^verbatim>\<open>bookings\<close> table with the given
  columns: its \<^verbatim>\<open>WHERE\<close> clause, its \<^verbatim>\<open>SET\<close> list, and the columns \<^verbatim>\<open>id, full_name, user_email\<close>
  it asks back. The result is the server's error, or the table after the update with the
  rows handed back.
\<close>

definition expired_where :: "int \<Rightarrow> booking \<Rightarrow> bool option" where
  "expired_where now b =
     sql_and (sql_and (sql_and
       (sql_eq (booking_status b) (Some ''approved''))
       (sql_neq (payment_status b) (Some ''paid'')))
       (sql_is_not_null (payment_deadline b)))
       (sql_lt (payment_deadline b) (Some now))"

definition cancel_expired :: "int \<Rightarrow> booking \<Rightarrow> booking" where
  "cancel_expired now b =
     b\<lparr>booking_status := Some ''cancelled'',
       updated_at := Some now,
       cancellation_reason := Some ''Payment not received within 20-hour deadline''\<rparr>"

definition expiry_update ::
  "(string \<times> (booking \<Rightarrow> sqlval)) list \<Rightarrow> int \<Rightarrow> booking list \<Rightarrow>
     string + (booking list \<times> (string \<times> sqlval) list list)" where
  "expiry_update columns now rows =
     (case resolve_columns columns [''id'', ''full_name'', ''user_email''] of
        Inl err \<Rightarrow> Inl err
      | Inr gets \<Rightarrow>
          let result = sql_update (\<lambda>b. sql_true (expired_where now b)) (cancel_expired now) rows
          in Inr (fst result, map (project gets) (snd result)))"

definition check_expired_bookings ::
  "int \<Rightarrow> database \<Rightarrow> database \<times> (nat \<times> (string \<times> sqlval) list list) reply" where
  "check_expired_bookings now db =
     (case expiry_update bookings_columns now (bookings db) of
        Inl err \<Rightarrow> (db, Failure err)
      | Inr (rows', result) \<Rightarrow>
          (db\<lparr>bookings := rows'\<rparr>,
           if 0 < length result then Success (length result, result) else Success (0, [])))"

subsection \<open>The staff and user handlers\<close>




subsection \<open>Runs of requests\<close>

text \<open>
  The requests that write to the database, and a run of them, each served with the clock
  values it reads (\<^verbatim>\<open>Date.now()\<close>, then \<^verbatim>\<open>NOW()\<close>).
\<close>

datatype request =
    UpdateBookingStatus string string "string option"
  | MarkPaymentAsPaid string
  | AddServiceCharge string "string option" "rat option" "rat option" "rat option"
  | CompleteBooking string "int option" "string option"
  | SetPaymentDeadline string
  | CheckExpiredBookings
  | UpdateStaffStatus string string "string option"
  | DeleteStaff string
  | UpdateUserStatus string string











subsection \<open>A database for the worked examples\<close>

text \<open>
  The ids of the example rows with the texts that denote them, and a well-formed id no
  row has.
\<close>

abbreviation booking_1 :: uuid where
  "booking_1 \<equiv> UUID [17, 17, 17, 17, 17, 17, 65, 17, 129, 17, 17, 17, 17, 17, 17, 17]"
abbreviation booking_1_text :: string where
  "booking_1_text \<equiv> ''11111111-1111-4111-8111-111111111111''"
abbreviation user_1 :: uuid where
  "user_1 \<equiv> UUID [170, 170, 170, 170, 170, 170, 74, 170, 138, 170, 170, 170, 170, 170, 170, 170]"
abbreviation user_1_text :: string where
  "user_1_text \<equiv> ''aaaaaaaa-aaaa-4aaa-8aaa-aaaaaaaaaaaa''"
abbreviation staff_1 :: uuid where
  "staff_1 \<equiv> UUID [187, 187, 187, 187, 187, 187, 75, 187, 139, 187, 187, 187, 187, 187, 187, 187]"
abbreviation staff_1_text :: string where
  "staff_1_text \<equiv> ''bbbbbbbb-bbbb-4bbb-8bbb-bbbbbbbbbbbb''"

text \<open>
  One approved, unpaid booking whose payment deadline was at clock value 1000, one staff
  member and one user.
\<close>

definition example_booking :: booking where
  "example_booking =
     \<lparr>booking_id = booking_1, user_id = Some user_1, full_name = Some ''Ana Cruz'',
      contact_number = Some ''0917 000 0000'', event_type = Some ''Birthday'',
      event_date = Some ''2025-01-10'', start_time = Some ''10:00'', end_time = Some ''14:00'',
      guest_count = Some 50, food_package = Some ''Silver'', selected_menus = None,
      event_theme = None, custom_theme = None, theme_suggestions = None,
      celebrant_name = Some ''Mia'', celebrant_age = Some 7, location = Some ''Quezon City'',
      package_price = Some 20000, service_charge = Some 0, charge_description = None,
      total_price = Some 20000, booking_status = Some ''approved'',
      payment_status = Some ''unpaid'', cancellation_reason = None, approval_date = Some 0,
      event_rating = None, event_feedback = None, completion_date = None,
      payment_deadline = Some 1000, created_at = Some 0, updated_at = Some 0\<rparr>"

definition example_db :: database where
  "example_db =
     \<lparr>bookings = [example_booking],
      staff = [\<lparr>staff_id = staff_1, staff_email = Some ''staff@example.com'',
                staff_full_name = Some ''Ben Reyes'', staff_role = Some ''staff'',
                staff_status = Some ''pending'', staff_rejection_reason = None,
                staff_created_at = Some 0, staff_updated_at = Some 0\<rparr>],
      usertable = [\<lparr>usr_id = user_1, usr_name = Some ''Ana Cruz'',
                    usr_email = Some ''ana@example.com'', usr_avatar_url = None,
                    usr_status = Some ''active'', usr_created_at = Some 0,
                    usr_updated_at = Some 0\<rparr>]\<rparr>"



section \<open>Rounding to a double\<close>

lemma rhe_lower: "q - 1/2 \<le> of_int (round_half_even q)"
  unfolding round_half_even_def Let_def by (auto; linarith)

lemma rhe_upper: "of_int (round_half_even q) \<le> q + 1/2"
  unfolding round_half_even_def Let_def by (auto; linarith)

lemma rhe_of_int: "round_half_even (of_int n) = n"
  unfolding round_half_even_def Let_def by simp

lemma rhe_mono:
  assumes "q1 \<le> q2"
  shows "round_half_even q1 \<le> round_half_even q2"
proof (rule ccontr)
  assume "\<not> ?thesis"
  then have lt: "round_half_even q2 + 1 \<le> round_half_even q1" by simp
  have "rat_of_int (round_half_even q2) + 1 \<le> rat_of_int (round_half_even q1)"
    using lt by (metis of_int_1 of_int_add of_int_le_iff)
  with rhe_lower[of q2] rhe_upper[of q1] assms have "q1 = q2" by linarith
  with lt show False by simp
qed

lemma two_powi_pos: "(0::rat) < 2 powi n"
  by (rule zero_less_power_int) simp

lemma two_powi_mono: "m \<le> n \<Longrightarrow> (2::rat) powi m \<le> 2 powi n"
  by (simp add: power_int_increasing)

lemma two_powi_less_exp: "(2::rat) powi m < 2 powi n \<Longrightarrow> m < n"
  using two_powi_mono[of n m] by (cases "m < n") auto

lemma two_powi_diff: "(2::rat) powi (a - b) = 2 powi a / 2 powi b"
  by (rule power_int_diff) simp

lemma bitlen_rat_bounds:
  assumes "0 < p"
  shows "(2::rat) powi (bitlen p - 1) \<le> of_int p" and "rat_of_int p < 2 powi (bitlen p)"
proof -
  from bitlen_bounds[OF assms]
  have a: "2 ^ nat (bitlen p - 1) \<le> p" and b: "p < 2 ^ nat (bitlen p)" by auto
  have pos: "0 \<le> bitlen p - 1" using assms by (simp add: bitlen_def floorlog_def)
  have "(2::rat) powi (bitlen p - 1) = 2 ^ nat (bitlen p - 1)"
    using pos by (simp add: power_int_nonneg_exp)
  also have "\<dots> = of_int (2 ^ nat (bitlen p - 1))" by simp
  also have "\<dots> \<le> of_int p" using a by (simp only: of_int_le_iff)
  finally show "(2::rat) powi (bitlen p - 1) \<le> of_int p" .
  have "rat_of_int p < of_int (2 ^ nat (bitlen p))" using b by (simp only: of_int_less_iff)
  also have "\<dots> = 2 ^ nat (bitlen p)" by simp
  also have "\<dots> = 2 powi (bitlen p)"
    using pos by (simp add: power_int_nonneg_exp)
  finally show "rat_of_int p < 2 powi (bitlen p)" .
qed

lemma binade_bounds:
  assumes "0 < x"
  shows "2 powi (binade x) \<le> x" and "x < 2 powi (binade x + 1)"
proof -
  obtain p q where pq: "quotient_of x = (p, q)" by (cases "quotient_of x") auto
  then have q: "0 < q" and x: "x = of_int p / of_int q"
    by (auto dest: quotient_of_denom_pos quotient_of_div)
  have p: "0 < p" using assms q x by (simp add: zero_less_divide_iff)
  define d where "d = bitlen p - bitlen q"
  have lo: "2 powi (d - 1) \<le> x"
  proof -
    have "d - 1 = (bitlen p - 1) - bitlen q" by (simp add: d_def)
    then have "(2::rat) powi (d - 1) = 2 powi (bitlen p - 1) / 2 powi (bitlen q)"
      by (simp only: two_powi_diff)
    also have "\<dots> \<le> of_int p / 2 powi (bitlen q)"
      using bitlen_rat_bounds(1)[OF p] two_powi_pos[of "bitlen q"]
      by (simp add: divide_right_mono)
    also have "\<dots> \<le> of_int p / of_int q"
      using bitlen_rat_bounds(2)[OF q] p q by (simp add: frac_le)
    finally show ?thesis using x by simp
  qed
  have hi: "x < 2 powi (d + 1)"
  proof -
    have "x = of_int p / of_int q" by (rule x)
    also have "\<dots> < 2 powi (bitlen p) / of_int q"
      using bitlen_rat_bounds(2)[OF p] q by (simp add: divide_strict_right_mono)
    also have "\<dots> \<le> 2 powi (bitlen p) / 2 powi (bitlen q - 1)"
      using bitlen_rat_bounds(1)[OF q] two_powi_pos[of "bitlen q - 1"] two_powi_pos[of "bitlen p"]
      by (simp add: frac_le)
    also have "\<dots> = 2 powi (bitlen p - (bitlen q - 1))"
      by (simp only: two_powi_diff)
    also have "bitlen p - (bitlen q - 1) = d + 1" by (simp add: d_def)
    finally show ?thesis .
  qed
  have b: "binade x = (if 2 powi d \<le> x then d else d - 1)"
    unfolding binade_def Let_def d_def using pq by simp
  show "2 powi (binade x) \<le> x" using b lo by auto
  show "x < 2 powi (binade x + 1)" using b hi by auto
qed


lemma two_powi_52: "(2::rat) powi e / 2 powi (e - 52) = of_int (2 ^ 52)"
proof -
  have "(2::rat) powi e / 2 powi (e - 52) = 2 powi (e - (e - 52))"
    by (simp only: two_powi_diff)
  also have "e - (e - 52) = 52" by simp
  finally show ?thesis by simp
qed

lemma two_powi_53: "(2::rat) powi (e + 1) / 2 powi (e - 52) = of_int (2 ^ 53)"
proof -
  have "(2::rat) powi (e + 1) / 2 powi (e - 52) = 2 powi (e + 1 - (e - 52))"
    by (simp only: two_powi_diff)
  also have "e + 1 - (e - 52) = 53" by simp
  finally show ?thesis by simp
qed

lemma round_double_pos_def:
  "0 < x \<Longrightarrow> round_double x =
     of_int (round_half_even (x / 2 powi (binade x - 52))) * 2 powi (binade x - 52)"
  by (simp add: round_double_def Let_def)

lemma round_double_binade:
  assumes "0 < x"
  shows "2 powi (binade x) \<le> round_double x" and "round_double x \<le> 2 powi (binade x + 1)"
proof -
  define e where "e = binade x"
  define u :: rat where "u = 2 powi (e - 52)"
  have u: "0 < u" unfolding u_def by (rule two_powi_pos)
  have rd: "round_double x = of_int (round_half_even (x / u)) * u"
    using assms by (simp add: round_double_pos_def u_def e_def)
  have "rat_of_int (2 ^ 52) = 2 powi e / u" unfolding u_def by (simp only: two_powi_52)
  also have "\<dots> \<le> x / u"
    using binade_bounds(1)[OF assms] u by (simp add: divide_right_mono e_def)
  finally have "round_half_even (of_int (2 ^ 52)) \<le> round_half_even (x / u)"
    by (rule rhe_mono)
  then have "rat_of_int (2 ^ 52) \<le> of_int (round_half_even (x / u))"
    by (simp only: rhe_of_int of_int_le_iff)
  then have "rat_of_int (2 ^ 52) * u \<le> round_double x"
    using u by (simp add: rd)
  moreover have "rat_of_int (2 ^ 52) * u = 2 powi e"
    using two_powi_52[of e] u by (simp add: u_def field_simps)
  ultimately show "2 powi (binade x) \<le> round_double x" by (simp add: e_def)
  have "x / u \<le> 2 powi (e + 1) / u"
    using binade_bounds(2)[OF assms] u by (simp add: divide_right_mono e_def)
  also have "\<dots> = rat_of_int (2 ^ 53)" unfolding u_def by (simp only: two_powi_53)
  finally have "round_half_even (x / u) \<le> round_half_even (of_int (2 ^ 53))"
    by (rule rhe_mono)
  then have "rat_of_int (round_half_even (x / u)) \<le> of_int (2 ^ 53)"
    by (simp only: rhe_of_int of_int_le_iff)
  then have "round_double x \<le> rat_of_int (2 ^ 53) * u"
    using u by (simp add: rd)
  moreover have "rat_of_int (2 ^ 53) * u = 2 powi (e + 1)"
    using two_powi_53[of e] u by (simp add: u_def field_simps)
  ultimately show "round_double x \<le> 2 powi (binade x + 1)" by (simp add: e_def)
qed

lemma round_double_nonneg: "0 \<le> x \<Longrightarrow> 0 \<le> round_double x"
proof (cases "x = 0")
  case True
  then show ?thesis by (simp add: round_double_def)
next
  case False
  assume "0 \<le> x"
  with False have "0 < x" by simp
  from round_double_binade(1)[OF this] two_powi_pos[of "binade x"] show ?thesis by linarith
qed

lemma round_double_mono:
  assumes "0 \<le> x" and "x \<le> y"
  shows "round_double x \<le> round_double y"
proof (cases "x = 0")
  case True
  then show ?thesis using assms round_double_nonneg[of y] by (simp add: round_double_def)
next
  case False
  with assms have x: "0 < x" and y: "0 < y" by auto
  have "2 powi (binade x) \<le> x" by (rule binade_bounds(1)[OF x])
  also have "x \<le> y" by fact
  also have "y < 2 powi (binade y + 1)" by (rule binade_bounds(2)[OF y])
  finally have "binade x < binade y + 1" by (rule two_powi_less_exp)
  then consider "binade x = binade y" | "binade x + 1 \<le> binade y" by linarith
  then show ?thesis
  proof cases
    case 1
    define u :: rat where "u = 2 powi (binade y - 52)"
    have u: "0 < u" unfolding u_def by (rule two_powi_pos)
    have "x / u \<le> y / u" using assms u by (simp add: divide_right_mono)
    then have "round_half_even (x / u) \<le> round_half_even (y / u)" by (rule rhe_mono)
    then have "rat_of_int (round_half_even (x / u)) * u \<le> of_int (round_half_even (y / u)) * u"
      using u by simp
    then show ?thesis using x y 1 by (simp add: round_double_pos_def u_def)
  next
    case 2
    have "round_double x \<le> 2 powi (binade x + 1)" by (rule round_double_binade(2)[OF x])
    also have "\<dots> \<le> 2 powi (binade y)" using 2 by (rule two_powi_mono)
    also have "\<dots> \<le> round_double y" by (rule round_double_binade(1)[OF y])
    finally show ?thesis .
  qed
qed

lemma double_below_one:
  assumes d: "is_double x" and lt: "x < 1"
  shows "x \<le> 1 - 1 / 2 ^ 53"
proof (cases "0 < x")
  case False
  then show ?thesis by simp
next
  case True
  have "2 powi (binade x) \<le> x" by (rule binade_bounds(1)[OF True])
  also have "x < 2 powi 0" using lt by simp
  finally have "binade x < 0" by (rule two_powi_less_exp)
  then consider "binade x = -1" | "binade x + 1 \<le> -1" by linarith
  then show ?thesis
  proof cases
    case 1
    define n where "n = round_half_even (x / 2 powi (- 53))"
    have x: "x = of_int n * 2 powi (- 53)"
      using d True 1 by (simp add: is_double_def round_double_pos_def n_def)
    have "rat_of_int n < of_int (2 ^ 53)" using lt x by (simp add: field_simps)
    then have "n < 2 ^ 53" by (simp only: of_int_less_iff)
    then have "n \<le> 2 ^ 53 - 1" by simp
    then have "rat_of_int n \<le> of_int (2 ^ 53 - 1)" by (simp only: of_int_le_iff)
    then show ?thesis using x by (simp add: field_simps)
  next
    case 2
    have "x < 2 powi (binade x + 1)" by (rule binade_bounds(2)[OF True])
    also have "\<dots> \<le> 2 powi (- 1)" using 2 by (rule two_powi_mono)
    finally show ?thesis by simp
  qed
qed

lemma generate_otp_number_range:
  assumes "is_double random" and "0 \<le> random" and "random < 1"
  shows "100000 \<le> generate_otp_number random" and "generate_otp_number random \<le> 999999"
proof -
  have r: "random \<le> 1 - 1 / 2 ^ 53" by (rule double_below_one[OF assms(1) assms(3)])
  define a where "a = round_double (random * 900000)"
  have a0: "0 \<le> a" using assms by (simp add: a_def round_double_nonneg)
  have "random * 900000 \<le> (1 - 1 / 2 ^ 53) * 900000" using r by simp
  then have "a \<le> round_double ((1 - 1 / 2 ^ 53) * 900000)"
    unfolding a_def using assms by (intro round_double_mono) simp_all
  also have "\<dots> = 900000 - 1 / 2 ^ 33" by code_simp
  finally have a1: "a \<le> 900000 - 1 / 2 ^ 33" .
  define b where "b = round_double (100000 + a)"
  have "round_double 100000 \<le> b" unfolding b_def using a0 by (intro round_double_mono) simp_all
  moreover have "round_double 100000 = 100000" by code_simp
  ultimately have b0: "100000 \<le> b" by simp
  have "b \<le> round_double (1000000 - 1 / 2 ^ 33)"
    unfolding b_def using a0 a1 by (intro round_double_mono) simp_all
  also have "\<dots> = 1000000 - 1 / 2 ^ 33" by code_simp
  finally have b1: "b < 1000000" by simp
  have g: "generate_otp_number random = \<lfloor>b\<rfloor>"
    by (simp add: generate_otp_number_def a_def b_def)
  show "100000 \<le> generate_otp_number random" using b0 by (simp add: g le_floor_iff)
  have "\<lfloor>b\<rfloor> < 1000000" using b1 by (simp add: floor_less_iff)
  then show "generate_otp_number random \<le> 999999" by (simp add: g)
qed

section \<open>Decimal strings\<close>

lemma digit_char_is_digit: "d < 10 \<Longrightarrow> is_digit (digit_char d)"
proof -
  assume "d < 10"
  then have "d = 0 \<or> d = 1 \<or> d = 2 \<or> d = 3 \<or> d = 4 \<or> d = 5 \<or> d = 6 \<or> d = 7
    \<or> d = 8 \<or> d = 9" by arith
  then show ?thesis by (elim disjE) (simp_all add: is_digit_def digit_char_def)
qed

lemma digits_of_nat_digits: "\<forall>c \<in> set (digits_of_nat n). is_digit c"
proof (induction n rule: digits_of_nat.induct)
  case (1 n)
  show ?case
  proof (cases "n < 10")
    case True
    then show ?thesis by (subst digits_of_nat.simps) (simp add: digit_char_is_digit)
  next
    case False
    with 1 show ?thesis by (subst digits_of_nat.simps) (simp add: digit_char_is_digit)
  qed
qed

lemma digits_of_nat_length:
  "10 ^ k \<le> n \<Longrightarrow> n < 10 ^ Suc k \<Longrightarrow> length (digits_of_nat n) = Suc k"
proof (induction k arbitrary: n)
  case 0
  then show ?case by (subst digits_of_nat.simps) simp
next
  case (Suc k)
  have "10 ^ k \<le> n div 10" using Suc.prems(1) by simp
  moreover have "n div 10 < 10 ^ Suc k" using Suc.prems(2) by (simp add: div_less_iff_less_mult)
  ultimately have "length (digits_of_nat (n div 10)) = Suc k" by (rule Suc.IH)
  moreover have "\<not> n < 10"
  proof -
    have "(1::nat) \<le> 10 ^ k" by simp
    moreover have "10 * 10 ^ k \<le> n" using Suc.prems(1) by simp
    ultimately show ?thesis by linarith
  qed
  ultimately show ?case by (subst digits_of_nat.simps) simp
qed

lemma six_digits:
  assumes "100000 \<le> i" and "i \<le> 999999"
  shows "length (Number_toString i) = 6" and "\<forall>c \<in> set (Number_toString i). is_digit c"
proof -
  have n: "Number_toString i = digits_of_nat (nat i)" using assms by (simp add: Number_toString_def)
  have "10 ^ 5 \<le> nat i" "nat i < 10 ^ Suc 5" using assms by simp_all
  then have "length (digits_of_nat (nat i)) = Suc 5" by (rule digits_of_nat_length)
  then show "length (Number_toString i) = 6" by (simp add: n)
  show "\<forall>c \<in> set (Number_toString i). is_digit c" unfolding n by (rule digits_of_nat_digits)
qed

section \<open>Properties of the OTP server\<close>

lemma verify_otp_keeps_absent:
  "store k = None \<Longrightarrow> fst (verify_otp admin email code now tok store) k = None"
  by (cases email) (auto simp: verify_otp_def split: option.splits)

lemma verify_all_keeps_absent:
  "store k = None \<Longrightarrow> verify_all admin reqs store k = None"
proof (induction reqs arbitrary: store)
  case Nil
  then show ?case by simp
next
  case (Cons r reqs)
  obtain email code now tok where r: "r = (email, code, now, tok)" by (cases r) auto
  have "fst (verify_otp admin email code now tok store) k = None"
    using Cons.prems by (rule verify_otp_keeps_absent[of store k])
  then have "verify_all admin reqs (fst (verify_otp admin email code now tok store)) k = None"
    by (rule Cons.IH)
  then show ?case by (simp add: r)
qed

lemma verify_otp_absent_fails:
  "store e = None \<Longrightarrow> \<not> success (snd (verify_otp admin (JString e) code now tok store))"
  by (simp add: verify_otp_def refused_def)

lemma verify_otp_success_deletes:
  assumes "success (snd (verify_otp admin email code now tok store))"
  shows "\<exists>e. email = JString e \<and> fst (verify_otp admin email code now tok store) e = None"
  using assms by (cases email) (auto simp: verify_otp_def refused_def split: option.splits if_splits)

text \<open>
  Claim C3. A \<^verbatim>\<open>verify-otp\<close> request succeeds exactly when its email is a string equal
  to the admin email up to letter case, the store has an entry under that email, the
  clock is not past the entry's expiry, and the submitted code is the stored string. The
  response carries the session token when it succeeds and no token when it fails.
\<close>

theorem verify_otp_succeeds_iff:
  "(success (snd (verify_otp admin email code now tok store)) \<longleftrightarrow>
      (\<exists>e c entry. email = JString e \<and> code = JString c \<and>
         toLowerCase e = toLowerCase admin \<and> store e = Some entry \<and>
         now \<le> expires entry \<and> c = otp entry)) \<and>
   token (snd (verify_otp admin email code now tok store)) =
     (if success (snd (verify_otp admin email code now tok store)) then Some tok else None)"
proof (cases email)
  case (JString e)
  show ?thesis
  proof (cases "toLowerCase e = toLowerCase admin")
    case False
    then show ?thesis by (simp add: JString verify_otp_def refused_def)
  next
    case admin: True
    show ?thesis
    proof (cases "store e")
      case None
      then show ?thesis by (simp add: JString admin verify_otp_def refused_def)
    next
      case (Some entry)
      consider (expired) "expires entry < now"
        | (wrong) "now \<le> expires entry" "JString (otp entry) \<noteq> code"
        | (right) "now \<le> expires entry" "code = JString (otp entry)"
        by fastforce
      then show ?thesis
      proof cases
        case expired
        then show ?thesis by (simp add: JString admin Some verify_otp_def refused_def)
      next
        case wrong
        then show ?thesis by (auto simp: JString admin Some verify_otp_def refused_def)
      next
        case right
        then show ?thesis by (simp add: JString admin Some verify_otp_def)
      qed
    qed
  qed
qed (simp_all add: verify_otp_def refused_def)

text \<open>
  At the default admin email, spelled with capitals by the request: the stored code logs
  in, another code does not.
\<close>

theorem verify_otp_succeeds_iff_witness:
  "success (snd (verify_otp (ADMIN_EMAIL None) (JString ''ZafsKitchen95@Gmail.com'')
       (JString ''550000'') 1000 ''5f''
       [''ZafsKitchen95@Gmail.com'' \<mapsto> \<lparr>otp = ''550000'', expires = 300000\<rparr>])) \<and>
   token (snd (verify_otp (ADMIN_EMAIL None) (JString ''ZafsKitchen95@Gmail.com'')
       (JString ''550000'') 1000 ''5f''
       [''ZafsKitchen95@Gmail.com'' \<mapsto> \<lparr>otp = ''550000'', expires = 300000\<rparr>])) = Some ''5f'' \<and>
   \<not> success (snd (verify_otp (ADMIN_EMAIL None) (JString ''ZafsKitchen95@Gmail.com'')
       (JString ''550001'') 1000 ''5f''
       [''ZafsKitchen95@Gmail.com'' \<mapsto> \<lparr>otp = ''550000'', expires = 300000\<rparr>]))"
proof -
  have lc: "toLowerCase ''ZafsKitchen95@Gmail.com'' = toLowerCase (ADMIN_EMAIL None)"
    by code_simp
  show ?thesis
    using lc
      verify_otp_succeeds_iff [of "ADMIN_EMAIL None" "JString ''ZafsKitchen95@Gmail.com''"
        "JString ''550000''" 1000 "''5f''"
        "[''ZafsKitchen95@Gmail.com'' \<mapsto> \<lparr>otp = ''550000'', expires = 300000\<rparr>]"]
      verify_otp_succeeds_iff [of "ADMIN_EMAIL None" "JString ''ZafsKitchen95@Gmail.com''"
        "JString ''550001''" 1000 "''5f''"
        "[''ZafsKitchen95@Gmail.com'' \<mapsto> \<lparr>otp = ''550000'', expires = 300000\<rparr>]"]
    by simp
qed

text \<open>
  Claim C6. A successful \<^verbatim>\<open>verify-otp\<close> deletes the entry of its email, and however many
  \<^verbatim>\<open>verify-otp\<close> requests follow, a later request with the same email and code fails as
  long as no \<^verbatim>\<open>send-otp\<close> has been served in between.
\<close>

theorem otp_single_use:
  "success (snd (verify_otp admin email code now tok store)) \<Longrightarrow>
     (\<exists>e. email = JString e \<and> fst (verify_otp admin email code now tok store) e = None) \<and>
     \<not> success (snd (verify_otp admin email code now' tok'
           (verify_all admin reqs (fst (verify_otp admin email code now tok store)))))"
proof -
  assume ok: "success (snd (verify_otp admin email code now tok store))"
  from verify_otp_success_deletes[OF ok] obtain e where
    e: "email = JString e" and gone: "fst (verify_otp admin email code now tok store) e = None"
    by blast
  have "verify_all admin reqs (fst (verify_otp admin email code now tok store)) e = None"
    using gone by (rule verify_all_keeps_absent[of _ e])
  then have "\<not> success (snd (verify_otp admin (JString e) code now' tok'
           (verify_all admin reqs (fst (verify_otp admin email code now tok store)))))"
    by (rule verify_otp_absent_fails[of _ e])
  with e gone show ?thesis by blast
qed

text \<open>
  A login, a wrong guess, and the first code tried again.
\<close>

theorem otp_single_use_witness:
  "success (snd (verify_otp (ADMIN_EMAIL None) (JString ''zafskitchen95@gmail.com'')
       (JString ''550000'') 1000 ''5f''
       [''zafskitchen95@gmail.com'' \<mapsto> \<lparr>otp = ''550000'', expires = 300000\<rparr>])) \<and>
   \<not> success (snd (verify_otp (ADMIN_EMAIL None) (JString ''zafskitchen95@gmail.com'')
       (JString ''550000'') 2000 ''6a''
       (verify_all (ADMIN_EMAIL None)
          [(JString ''zafskitchen95@gmail.com'', JString ''123456'', 1500, ''00'')]
          (fst (verify_otp (ADMIN_EMAIL None) (JString ''zafskitchen95@gmail.com'')
             (JString ''550000'') 1000 ''5f''
             [''zafskitchen95@gmail.com'' \<mapsto> \<lparr>otp = ''550000'', expires = 300000\<rparr>])))))"
proof -
  have ok: "success (snd (verify_otp (ADMIN_EMAIL None) (JString ''zafskitchen95@gmail.com'')
       (JString ''550000'') 1000 ''5f''
       [''zafskitchen95@gmail.com'' \<mapsto> \<lparr>otp = ''550000'', expires = 300000\<rparr>]))"
    by (simp add: verify_otp_def ADMIN_EMAIL_def)
  from otp_single_use [OF ok, of 2000 "''6a''"
      "[(JString ''zafskitchen95@gmail.com'', JString ''123456'', 1500, ''00'')]"] ok
  show ?thesis by blast
qed

text \<open>
  Claim C7. A \<^verbatim>\<open>send-otp\<close> request whose email is not the admin email up to letter case
  (or is no string at all) is answered with \<^verbatim>\<open>success: false\<close> and leaves the store as it
  was. For the admin email and a value of \<^verbatim>\<open>Math.random()\<close>, a double in \<open>[0, 1)\<close>, the
  stored code is the decimal string of an integer from 100000 to 999999, six digits, and
  its expiry is the clock plus 300000 milliseconds.
\<close>

theorem send_otp_spec:
  "((\<forall>e. email = JString e \<longrightarrow> toLowerCase e \<noteq> toLowerCase admin) \<longrightarrow>
      fst (send_otp admin email random now brevo store) = store \<and>
      \<not> success (snd (send_otp admin email random now brevo store))) \<and>
   (\<forall>e. email = JString e \<and> toLowerCase e = toLowerCase admin \<and>
        is_double random \<and> 0 \<le> random \<and> random < 1 \<longrightarrow>
      (\<exists>n. 100000 \<le> n \<and> n \<le> 999999 \<and> length (Number_toString n) = 6 \<and>
           (\<forall>c \<in> set (Number_toString n). is_digit c) \<and>
           fst (send_otp admin email random now brevo store) e =
             Some \<lparr>otp = Number_toString n, expires = now + 300000\<rparr>))"
proof (intro conjI impI allI)
  assume "\<forall>e. email = JString e \<longrightarrow> toLowerCase e \<noteq> toLowerCase admin"
  then show "fst (send_otp admin email random now brevo store) = store"
    by (cases email) (simp_all add: send_otp_def)
next
  assume "\<forall>e. email = JString e \<longrightarrow> toLowerCase e \<noteq> toLowerCase admin"
  then show "\<not> success (snd (send_otp admin email random now brevo store))"
    by (cases email) (simp_all add: send_otp_def refused_def)
next
  fix e
  assume a: "email = JString e \<and> toLowerCase e = toLowerCase admin \<and>
        is_double random \<and> 0 \<le> random \<and> random < 1"
  define n where "n = generate_otp_number random"
  have lo: "100000 \<le> n" and hi: "n \<le> 999999"
    using a generate_otp_number_range[of random] by (simp_all add: n_def)
  have "fst (send_otp admin email random now brevo store) e =
      Some \<lparr>otp = Number_toString n, expires = now + 300000\<rparr>"
    using a by (simp add: send_otp_def Let_def generate_otp_def n_def)
  with lo hi six_digits[OF lo hi]
  show "\<exists>n. 100000 \<le> n \<and> n \<le> 999999 \<and> length (Number_toString n) = 6 \<and>
           (\<forall>c \<in> set (Number_toString n). is_digit c) \<and>
           fst (send_otp admin email random now brevo store) e =
             Some \<lparr>otp = Number_toString n, expires = now + 300000\<rparr>"
    by blast
qed

text \<open>
  A stranger's request and the admin's, on the empty store.
\<close>

theorem send_otp_spec_witness:
  "fst (send_otp (ADMIN_EMAIL None) (JString ''mallory@example.com'') (1 / 2) 1000 (Responded 201)
        Map.empty) = Map.empty \<and>
   \<not> success (snd (send_otp (ADMIN_EMAIL None) (JString ''mallory@example.com'') (1 / 2) 1000
        (Responded 201) Map.empty)) \<and>
   (\<exists>n. 100000 \<le> n \<and> n \<le> 999999 \<and> length (Number_toString n) = 6 \<and>
        (\<forall>c \<in> set (Number_toString n). is_digit c) \<and>
        fst (send_otp (ADMIN_EMAIL None) (JString ''ZafsKitchen95@Gmail.com'') (1 / 2) 1000
          (Responded 201) Map.empty) ''ZafsKitchen95@Gmail.com'' =
          Some \<lparr>otp = Number_toString n, expires = 301000\<rparr>)"
proof -
  have ne: "toLowerCase ''mallory@example.com'' \<noteq> toLowerCase (ADMIN_EMAIL None)"
    by code_simp
  have lc: "toLowerCase ''ZafsKitchen95@Gmail.com'' = toLowerCase (ADMIN_EMAIL None)"
    by code_simp
  have d: "is_double (1 / 2)" by code_simp
  from ne send_otp_spec [of "JString ''mallory@example.com''" "ADMIN_EMAIL None" "1 / 2" 1000
      "Responded 201" Map.empty]
  have one: "fst (send_otp (ADMIN_EMAIL None) (JString ''mallory@example.com'') (1 / 2) 1000
        (Responded 201) Map.empty) = Map.empty \<and>
     \<not> success (snd (send_otp (ADMIN_EMAIL None) (JString ''mallory@example.com'') (1 / 2) 1000
        (Responded 201) Map.empty))"
    by simp
  from lc d send_otp_spec [of "JString ''ZafsKitchen95@Gmail.com''" "ADMIN_EMAIL None" "1 / 2"
      1000 "Responded 201" Map.empty]
  have two: "\<exists>n. 100000 \<le> n \<and> n \<le> 999999 \<and> length (Number_toString n) = 6 \<and>
        (\<forall>c \<in> set (Number_toString n). is_digit c) \<and>
        fst (send_otp (ADMIN_EMAIL None) (JString ''ZafsKitchen95@Gmail.com'') (1 / 2) 1000
          (Responded 201) Map.empty) ''ZafsKitchen95@Gmail.com'' =
          Some \<lparr>otp = Number_toString n, expires = 301000\<rparr>"
    by simp
  from one two show ?thesis by blast
qed

lemma admin_lower: "toLowerCase ''zafskitchen95@gmail.com'' = toLowerCase (ADMIN_EMAIL None)"
  by (simp add: ADMIN_EMAIL_def)

lemma capitals_lower: "toLowerCase ''ZafsKitchen95@gmail.com'' = toLowerCase (ADMIN_EMAIL None)"
  by code_simp

lemma verify_otp_other_key:
  assumes "k \<noteq> e"
  shows "snd (verify_otp admin (JString k) code now tok (store(e \<mapsto> entry))) =
     snd (verify_otp admin (JString k) code now tok store)"
  using assms by (simp add: verify_otp_def split: option.splits)

text \<open>
  Claim C10 as stated fails in two ways. The newer code can be the older one: two draws of
  \<^verbatim>\<open>Math.random()\<close>, \<open>1 / 2\<close> and \<open>1 / 2 + 1 / 2 ^ 21\<close>, both give 550000, and the code issued
  first still logs in after the second \<^verbatim>\<open>send-otp\<close>. And the store is keyed by the email as
  the request spells it, while the admin check ignores letter case: after 550000 was sent
  to \<^verbatim>\<open>zafskitchen95@gmail.com\<close> and then 775000 to \<^verbatim>\<open>ZafsKitchen95@gmail.com\<close>, the store
  holds both entries and the older, different code still logs in under its spelling.
\<close>

theorem resend_same_code_counterexample:
  "fst (send_otp (ADMIN_EMAIL None) (JString ''zafskitchen95@gmail.com'') (1 / 2) 0
        (Responded 201) Map.empty) ''zafskitchen95@gmail.com'' =
      Some \<lparr>otp = ''550000'', expires = 300000\<rparr> \<and>
   success (snd (verify_otp (ADMIN_EMAIL None) (JString ''zafskitchen95@gmail.com'')
      (JString ''550000'') 2000 ''5f''
      (fst (send_otp (ADMIN_EMAIL None) (JString ''zafskitchen95@gmail.com'')
         (1 / 2 + 1 / 2 ^ 21) 1000 (Responded 201)
         (fst (send_otp (ADMIN_EMAIL None) (JString ''zafskitchen95@gmail.com'') (1 / 2) 0
            (Responded 201) Map.empty)))))) \<and>
   fst (send_otp (ADMIN_EMAIL None) (JString ''ZafsKitchen95@gmail.com'') (3 / 4) 1000
        (Responded 201)
        (fst (send_otp (ADMIN_EMAIL None) (JString ''zafskitchen95@gmail.com'') (1 / 2) 0
           (Responded 201) Map.empty))) ''ZafsKitchen95@gmail.com'' =
      Some \<lparr>otp = ''775000'', expires = 301000\<rparr> \<and>
   success (snd (verify_otp (ADMIN_EMAIL None) (JString ''zafskitchen95@gmail.com'')
      (JString ''550000'') 2000 ''5f''
      (fst (send_otp (ADMIN_EMAIL None) (JString ''ZafsKitchen95@gmail.com'')
         (3 / 4) 1000 (Responded 201)
         (fst (send_otp (ADMIN_EMAIL None) (JString ''zafskitchen95@gmail.com'') (1 / 2) 0
            (Responded 201) Map.empty))))))"
proof -
  have a: "generate_otp_number (1 / 2) = 550000" by code_simp
  have "generate_otp_number (1 / 2 + 1 / 2 ^ 21) = 550000" by code_simp
  then have b: "generate_otp_number (1048577 / 2097152) = 550000" by simp
  have c: "Number_toString 550000 = ''550000''"
    by (simp add: Number_toString_def digits_of_nat.simps digit_char_def)
  have d: "generate_otp_number (3 / 4) = 775000" by code_simp
  have e: "Number_toString 775000 = ''775000''"
    by (simp add: Number_toString_def digits_of_nat.simps digit_char_def)
  show ?thesis
    using admin_lower capitals_lower
    by (simp add: send_otp_def verify_otp_def generate_otp_def a b c d e)
qed

text \<open>
  Claim C10, amended. The store has one entry per email string. A \<^verbatim>\<open>send-otp\<close> for the
  admin email replaces the entry stored under the spelling of the request and leaves the
  entries under every other key as they are. After it a \<^verbatim>\<open>verify-otp\<close> under that spelling
  succeeds exactly when the submitted code is the newly generated one and the new entry
  has not expired, so an older code that differs from the new one is refused there; a
  \<^verbatim>\<open>verify-otp\<close> under any other spelling is answered as it would have been before.
\<close>

theorem send_otp_overwrites:
  assumes admin: "toLowerCase e = toLowerCase admin"
  shows
    "fst (send_otp admin (JString e) random now brevo store) e =
       Some \<lparr>otp = generate_otp random, expires = now + 300000\<rparr> \<and>
     (\<forall>k. k \<noteq> e \<longrightarrow> fst (send_otp admin (JString e) random now brevo store) k = store k) \<and>
     (success (snd (verify_otp admin (JString e) code now' tok
          (fst (send_otp admin (JString e) random now brevo store)))) \<longleftrightarrow>
        code = JString (generate_otp random) \<and> now' \<le> now + 300000) \<and>
     (\<forall>k. k \<noteq> e \<longrightarrow>
        snd (verify_otp admin (JString k) code now' tok
          (fst (send_otp admin (JString e) random now brevo store))) =
        snd (verify_otp admin (JString k) code now' tok store))"
proof -
  define store' where "store' = fst (send_otp admin (JString e) random now brevo store)"
  have written: "store' = store(e \<mapsto> \<lparr>otp = generate_otp random, expires = now + 300000\<rparr>)"
    using admin by (simp add: store'_def send_otp_def Let_def)
  have new: "store' e = Some \<lparr>otp = generate_otp random, expires = now + 300000\<rparr>"
    by (simp add: written)
  have others: "\<forall>k. k \<noteq> e \<longrightarrow> store' k = store k"
    by (simp add: written)
  have same: "success (snd (verify_otp admin (JString e) code now' tok store')) \<longleftrightarrow>
      code = JString (generate_otp random) \<and> now' \<le> now + 300000"
    using admin new by (auto simp: verify_otp_def refused_def)
  have other: "\<forall>k. k \<noteq> e \<longrightarrow>
      snd (verify_otp admin (JString k) code now' tok store') =
      snd (verify_otp admin (JString k) code now' tok store)"
    unfolding written by (simp add: verify_otp_other_key)
  from new others same other show ?thesis unfolding store'_def by blast
qed

text \<open>
  The store holds 550000 under two spellings; a new draw stores 775000 under one of them:
  there the old code is refused and the new one logs in, and under the other spelling the
  old code still logs in.
\<close>

theorem send_otp_overwrites_witness:
  "\<not> success (snd (verify_otp (ADMIN_EMAIL None) (JString ''zafskitchen95@gmail.com'')
      (JString ''550000'') 2000 ''5f''
      (fst (send_otp (ADMIN_EMAIL None) (JString ''zafskitchen95@gmail.com'')
         (3 / 4) 1000 (Responded 201)
         [''zafskitchen95@gmail.com'' \<mapsto> \<lparr>otp = ''550000'', expires = 300000\<rparr>,
          ''ZafsKitchen95@gmail.com'' \<mapsto> \<lparr>otp = ''550000'', expires = 300000\<rparr>])))) \<and>
   success (snd (verify_otp (ADMIN_EMAIL None) (JString ''zafskitchen95@gmail.com'')
      (JString ''775000'') 2000 ''5f''
      (fst (send_otp (ADMIN_EMAIL None) (JString ''zafskitchen95@gmail.com'')
         (3 / 4) 1000 (Responded 201)
         [''zafskitchen95@gmail.com'' \<mapsto> \<lparr>otp = ''550000'', expires = 300000\<rparr>,
          ''ZafsKitchen95@gmail.com'' \<mapsto> \<lparr>otp = ''550000'', expires = 300000\<rparr>])))) \<and>
   success (snd (verify_otp (ADMIN_EMAIL None) (JString ''ZafsKitchen95@gmail.com'')
      (JString ''550000'') 2000 ''5f''
      (fst (send_otp (ADMIN_EMAIL None) (JString ''zafskitchen95@gmail.com'')
         (3 / 4) 1000 (Responded 201)
         [''zafskitchen95@gmail.com'' \<mapsto> \<lparr>otp = ''550000'', expires = 300000\<rparr>,
          ''ZafsKitchen95@gmail.com'' \<mapsto> \<lparr>otp = ''550000'', expires = 300000\<rparr>]))))"
proof -
  have a: "generate_otp_number (3 / 4) = 775000" by code_simp
  have c: "generate_otp (3 / 4) = ''775000''"
    by (simp add: generate_otp_def a Number_toString_def digits_of_nat.simps digit_char_def)
  have before: "success (snd (verify_otp (ADMIN_EMAIL None) (JString ''ZafsKitchen95@gmail.com'')
      (JString ''550000'') 2000 ''5f''
      [''zafskitchen95@gmail.com'' \<mapsto> \<lparr>otp = ''550000'', expires = 300000\<rparr>,
       ''ZafsKitchen95@gmail.com'' \<mapsto> \<lparr>otp = ''550000'', expires = 300000\<rparr>]))"
    using capitals_lower by (simp add: verify_otp_def)
  have ne: "''ZafsKitchen95@gmail.com'' \<noteq> ''zafskitchen95@gmail.com''" by simp
  show ?thesis
    using c before ne
      send_otp_overwrites [OF admin_lower, of "3 / 4" 1000 "Responded 201"
        "[''zafskitchen95@gmail.com'' \<mapsto> \<lparr>otp = ''550000'', expires = 300000\<rparr>,
          ''ZafsKitchen95@gmail.com'' \<mapsto> \<lparr>otp = ''550000'', expires = 300000\<rparr>]"
        "JString ''550000''" 2000 "''5f''"]
      send_otp_overwrites [OF admin_lower, of "3 / 4" 1000 "Responded 201"
        "[''zafskitchen95@gmail.com'' \<mapsto> \<lparr>otp = ''550000'', expires = 300000\<rparr>,
          ''ZafsKitchen95@gmail.com'' \<mapsto> \<lparr>otp = ''550000'', expires = 300000\<rparr>]"
        "JString ''775000''" 2000 "''5f''"]
    by simp
qed

section \<open>Properties of the database handlers\<close>

subsection \<open>Updates and their replies\<close>



lemma first_row_Cons: "first_row msg (r # rs) = Success r"
  by (simp add: first_row_def)

lemma sql_update_length: "length (fst (sql_update wh st rows)) = length rows"
  by (simp add: sql_update_def)

lemma sql_update_nth:
  "i < length rows \<Longrightarrow>
     fst (sql_update wh st rows) ! i = (if wh (rows ! i) then st (rows ! i) else rows ! i)"
  by (simp add: sql_update_def)


lemma sql_update_returns_first:
  assumes "r \<in> set rows" and "wh r"
  shows "\<exists>x \<in> set rows. wh x \<and> first_row msg (snd (sql_update wh st rows)) = Success (st x)"
proof -
  from assms have "filter wh rows \<noteq> []" by (auto simp: filter_empty_conv)
  then obtain x xs where f: "filter wh rows = x # xs" by (cases "filter wh rows") auto
  then have "x \<in> set (filter wh rows)" by simp
  then have "x \<in> set rows" "wh x" by auto
  moreover have "first_row msg (snd (sql_update wh st rows)) = Success (st x)"
    by (simp add: sql_update_def f first_row_Cons)
  ultimately show ?thesis by blast
qed

lemma sql_update_member:
  assumes "x \<in> set rows" and "wh x"
  shows "st x \<in> set (fst (sql_update wh st rows))"
  using assms by (force simp: sql_update_def)

subsection \<open>Reading an id\<close>

lemma uuid_in_cases:
  obtains (rejected) "uuid_in source = Inl (invalid_uuid_syntax source)"
  | (accepted) key where "uuid_in source = Inr key"
  by (cases "string_to_uuid source") (auto simp: uuid_in_def)

lemma uuid_in_error: "uuid_in source = Inl err \<Longrightarrow> err = invalid_uuid_syntax source"
  by (cases "string_to_uuid source") (auto simp: uuid_in_def)

lemma not_a_uuid: "uuid_in ''not-a-uuid'' = Inl (invalid_uuid_syntax ''not-a-uuid'')"
  by code_simp

lemma booking_1_in: "uuid_in booking_1_text = Inr booking_1"
  by code_simp



text \<open>
  Capital hexadecimal digits, braces and other groupings of the digits spell the same id.
\<close>

lemma uuid_in_spellings:
  "uuid_in ''AAAAAAAA-AAAA-4AAA-8AAA-AAAAAAAAAAAA'' = Inr user_1 \<and>
   uuid_in ''{11111111111141118111-1111-11111111}'' = Inr booking_1 \<and>
   string_to_uuid ''11111111-1111-4111-8111-11111111111'' = None \<and>
   string_to_uuid ''1-1111111-1111-4111-8111-111111111111'' = None"
  by code_simp

subsection \<open>Ids without a row\<close>




subsection \<open>The payment deadline and the booking status\<close>

text \<open>
  Claim C2. When a booking with the given id exists, \<^verbatim>\<open>set-payment-deadline\<close> gives every
  row with that id the deadline \<^verbatim>\<open>Date.now()\<close> plus 72000000 milliseconds (20 hours) and
  the server's \<^verbatim>\<open>NOW()\<close> as \<^verbatim>\<open>updated_at\<close>, changes no other field of it and no other
  row or table, and answers \<^verbatim>\<open>success: true\<close> with the updated row.
\<close>

theorem set_payment_deadline_spec:
  assumes "b \<in> set (bookings db)" and "uuid_in bookingId = Inr (booking_id b)"
  shows
    "length (bookings (fst (set_payment_deadline bookingId date_now now db))) =
       length (bookings db) \<and>
     (\<forall>i < length (bookings db).
        bookings (fst (set_payment_deadline bookingId date_now now db)) ! i =
          (if booking_id (bookings db ! i) = booking_id b
           then (bookings db ! i)\<lparr>payment_deadline := Some (date_now + 72000000),
                                  updated_at := Some now\<rparr>
           else bookings db ! i)) \<and>
     staff (fst (set_payment_deadline bookingId date_now now db)) = staff db \<and>
     usertable (fst (set_payment_deadline bookingId date_now now db)) = usertable db \<and>
     (\<exists>old \<in> set (bookings db). booking_id old = booking_id b \<and>
        old\<lparr>payment_deadline := Some (date_now + 72000000), updated_at := Some now\<rparr>
          \<in> set (bookings (fst (set_payment_deadline bookingId date_now now db))) \<and>
        snd (set_payment_deadline bookingId date_now now db) =
          Success (old\<lparr>payment_deadline := Some (date_now + 72000000),
                       updated_at := Some now\<rparr>))"
proof -
  let ?wh = "\<lambda>r. booking_id r = booking_id b"
  let ?st = "\<lambda>b. b\<lparr>payment_deadline := Some (date_now + 72000000), updated_at := Some now\<rparr>"
  have fst_eq: "bookings (fst (set_payment_deadline bookingId date_now now db)) =
      fst (sql_update ?wh ?st (bookings db))"
    by (simp add: set_payment_deadline_def Let_def assms(2))
  have snd_eq: "snd (set_payment_deadline bookingId date_now now db) =
      first_row ''Booking not found'' (snd (sql_update ?wh ?st (bookings db)))"
    by (simp add: set_payment_deadline_def Let_def assms(2))
  from sql_update_returns_first[of b "bookings db" ?wh "''Booking not found''" ?st] assms(1)
  obtain old where old: "old \<in> set (bookings db)" "booking_id old = booking_id b"
    "first_row ''Booking not found'' (snd (sql_update ?wh ?st (bookings db))) = Success (?st old)"
    by blast
  have mem: "?st old \<in> set (fst (sql_update ?wh ?st (bookings db)))"
    using old(1,2) by (intro sql_update_member) simp_all
  have tables: "staff (fst (set_payment_deadline bookingId date_now now db)) = staff db"
    "usertable (fst (set_payment_deadline bookingId date_now now db)) = usertable db"
    by (simp_all add: set_payment_deadline_def Let_def assms(2))
  show ?thesis
    unfolding fst_eq snd_eq
    using old mem tables
    by (auto simp: sql_update_length sql_update_nth)
qed

text \<open>
  The example booking at \<^verbatim>\<open>Date.now() = 4000\<close> and \<^verbatim>\<open>NOW() = 5000\<close>.
\<close>

theorem set_payment_deadline_spec_witness:
  "bookings (fst (set_payment_deadline booking_1_text 4000 5000 example_db)) =
     [example_booking\<lparr>payment_deadline := Some 72004000, updated_at := Some 5000\<rparr>] \<and>
   snd (set_payment_deadline booking_1_text 4000 5000 example_db) =
     Success (example_booking\<lparr>payment_deadline := Some 72004000, updated_at := Some 5000\<rparr>)"
proof -
  have m: "example_booking \<in> set (bookings example_db)" by (simp add: example_db_def)
  have i: "booking_id example_booking = booking_1" by (simp add: example_booking_def)
  have p: "uuid_in booking_1_text = Inr (booking_id example_booking)"
    by (simp only: i booking_1_in)
  have l: "length (bookings example_db) = 1" by (simp add: example_db_def)
  have n: "bookings example_db ! 0 = example_booking" by (simp add: example_db_def)
  have s: "set (bookings example_db) = {example_booking}" by (simp add: example_db_def)
  from set_payment_deadline_spec [OF m p, of 4000 5000]
  have len: "length (bookings (fst (set_payment_deadline booking_1_text 4000 5000 example_db))) = 1"
    and row: "bookings (fst (set_payment_deadline booking_1_text 4000 5000 example_db)) ! 0 =
      example_booking\<lparr>payment_deadline := Some 72004000, updated_at := Some 5000\<rparr>"
    and rep: "snd (set_payment_deadline booking_1_text 4000 5000 example_db) =
      Success (example_booking\<lparr>payment_deadline := Some 72004000, updated_at := Some 5000\<rparr>)"
    by (simp_all add: l n s)
  from len row
  have "bookings (fst (set_payment_deadline booking_1_text 4000 5000 example_db)) =
     [example_booking\<lparr>payment_deadline := Some 72004000, updated_at := Some 5000\<rparr>]"
    by (cases "bookings (fst (set_payment_deadline booking_1_text 4000 5000 example_db))") simp_all
  with rep show ?thesis by simp
qed

text \<open>
  Claim C9. \<^verbatim>\<open>update-booking-status\<close> keeps the number and order of the bookings; a row
  with another id is unchanged; a row with the given id agrees with its old value in
  every field except \<^verbatim>\<open>booking_status\<close>, \<^verbatim>\<open>cancellation_reason\<close>, \<^verbatim>\<open>approval_date\<close> and
  \<^verbatim>\<open>updated_at\<close>, and keeps its \<^verbatim>\<open>approval_date\<close> too unless the new status is
  \<^verbatim>\<open>approved\<close>; the staff and user tables are unchanged.
\<close>

theorem update_booking_status_frame:
  "length (bookings (fst (update_booking_status bookingId status reason now db))) =
     length (bookings db) \<and>
   (\<forall>i < length (bookings db).
      if uuid_in bookingId = Inr (booking_id (bookings db ! i))
      then (bookings (fst (update_booking_status bookingId status reason now db)) ! i)
             \<lparr>booking_status := booking_status (bookings db ! i),
              cancellation_reason := cancellation_reason (bookings db ! i),
              approval_date := approval_date (bookings db ! i),
              updated_at := updated_at (bookings db ! i)\<rparr> = bookings db ! i \<and>
           (status \<noteq> ''approved'' \<longrightarrow>
              approval_date (bookings (fst (update_booking_status bookingId status reason now db)) ! i)
                = approval_date (bookings db ! i))
      else bookings (fst (update_booking_status bookingId status reason now db)) ! i =
             bookings db ! i) \<and>
   staff (fst (update_booking_status bookingId status reason now db)) = staff db \<and>
   usertable (fst (update_booking_status bookingId status reason now db)) = usertable db"
proof (cases bookingId rule: uuid_in_cases)
  case rejected
  then have "fst (update_booking_status bookingId status reason now db) = db"
    by (simp add: update_booking_status_def Let_def)
  then show ?thesis by simp
next
  case (accepted key)
  define st :: "booking \<Rightarrow> booking" where "st =
     (if status = ''rejected'' \<and> truthy reason
      then (\<lambda>b. b\<lparr>booking_status := Some status, cancellation_reason := reason,
                   updated_at := Some now\<rparr>)
      else if status = ''approved''
      then (\<lambda>b. b\<lparr>booking_status := Some status, cancellation_reason := None,
                   approval_date := Some now, updated_at := Some now\<rparr>)
      else (\<lambda>b. b\<lparr>booking_status := Some status, cancellation_reason := None,
                   updated_at := Some now\<rparr>))"
  define db' where "db' = fst (update_booking_status bookingId status reason now db)"
  have db': "db' = db\<lparr>bookings := fst (sql_update (\<lambda>b. booking_id b = key) st (bookings db))\<rparr>"
    by (simp add: db'_def update_booking_status_def Let_def st_def accepted)
  have restore: "(st b)\<lparr>booking_status := booking_status b,
                     cancellation_reason := cancellation_reason b,
                     approval_date := approval_date b,
                     updated_at := updated_at b\<rparr> = b" for b
    by (simp add: st_def)
  have approval: "status \<noteq> ''approved'' \<Longrightarrow> approval_date (st b) = approval_date b" for b
    by (simp add: st_def)
  have len: "length (bookings db') = length (bookings db)"
    by (simp add: db' sql_update_length)
  have row: "bookings db' ! i = (if booking_id (bookings db ! i) = key
      then st (bookings db ! i) else bookings db ! i)" if "i < length (bookings db)" for i
    using that by (simp add: db' sql_update_nth)
  have tables: "staff db' = staff db" "usertable db' = usertable db"
    by (simp_all add: db')
  show ?thesis
    unfolding db'_def[symmetric]
    using len tables by (auto simp: row restore approval accepted)
qed

text \<open>
  Rejecting the example booking: putting the four fields back gives the old row, and the
  approval date was not touched.
\<close>

theorem update_booking_status_frame_witness:
  "(bookings (fst (update_booking_status booking_1_text ''rejected'' (Some ''Fully booked'') 5000
        example_db)) ! 0)
     \<lparr>booking_status := Some ''approved'', cancellation_reason := None,
      approval_date := Some 0, updated_at := Some 0\<rparr> = example_booking \<and>
   approval_date (bookings (fst (update_booking_status booking_1_text ''rejected''
        (Some ''Fully booked'') 5000 example_db)) ! 0) = Some 0"
proof -
  have l: "length (bookings example_db) = 1" by (simp add: example_db_def)
  have n: "bookings example_db ! 0 = example_booking" by (simp add: example_db_def)
  have f: "booking_id example_booking = booking_1" "booking_status example_booking = Some ''approved''"
    "cancellation_reason example_booking = None" "approval_date example_booking = Some 0"
    "updated_at example_booking = Some 0"
    by (simp_all add: example_booking_def)
  from update_booking_status_frame [of booking_1_text "''rejected''" "Some ''Fully booked''" 5000
      example_db]
  show ?thesis by (simp add: l n f booking_1_in)
qed

subsection \<open>The expiry sweep\<close>

lemma expired_where_true_iff:
  "sql_true (expired_where now b) \<longleftrightarrow>
     booking_status b = Some ''approved'' \<and>
     (\<exists>p. payment_status b = Some p \<and> p \<noteq> ''paid'') \<and>
     (\<exists>d. payment_deadline b = Some d \<and> d < now)"
  by (auto simp: sql_true_def expired_where_def sql_and_def sql_eq_def sql_neq_def sql_lt_def
      sql_is_not_null_def split: option.splits if_splits)

lemma resolve_returning_list:
  "resolve_columns bookings_columns [''id'', ''full_name'', ''user_email''] =
     Inl (undefined_column ''user_email'')"
  by (simp add: bookings_columns_def)

lemma check_expired_bookings_rejected:
  "check_expired_bookings now db = (db, Failure (undefined_column ''user_email''))"
  by (simp add: check_expired_bookings_def expiry_update_def resolve_returning_list
      del: resolve_columns.simps)

text \<open>
  On a table that did have the three columns, the statement would update exactly the rows
  its \<^verbatim>\<open>WHERE\<close> clause selects and hand those back.
\<close>

lemma expiry_update_resolved:
  assumes "resolve_columns columns [''id'', ''full_name'', ''user_email''] = Inr gets"
  shows "expiry_update columns now rows =
     Inr (map (\<lambda>b. if sql_true (expired_where now b) then cancel_expired now b else b) rows,
          map (\<lambda>b. project gets (cancel_expired now b))
            (filter (\<lambda>b. sql_true (expired_where now b)) rows))"
  using assms by (simp add: expiry_update_def sql_update_def Let_def comp_def)



text \<open>
  Claim C1. The example booking is approved, unpaid and past its deadline at clock value
  2000, so the claim has the sweep cancel it. The \<^verbatim>\<open>RETURNING\<close> list of the statement names
  \<^verbatim>\<open>user_email\<close>, which is not a column of \<^verbatim>\<open>bookings\<close> (the other handlers get it by joining
  \<^verbatim>\<open>usertable\<close>), so the server rejects the statement: the handler answers
  \<^verbatim>\<open>success: false\<close> with the server's message and the booking stays approved.
\<close>

theorem check_expired_bookings_fails:
  "sql_true (expired_where 2000 example_booking) \<and>
   check_expired_bookings 2000 example_db =
     (example_db, Failure (undefined_column ''user_email'')) \<and>
   undefined_column ''user_email'' =
     ''column '' @ [CHR 0x22] @ ''user_email'' @ [CHR 0x22] @ '' does not exist''"
  by (simp add: expired_where_true_iff example_booking_def check_expired_bookings_rejected
      undefined_column_def)

subsection \<open>Status values and cancellation reasons\<close>

















end
